theory Spec2Isabelle
  imports Complex_Main "HOL-Library.AList"
begin

section \<open>Conventions of the embedding\<close>

text \<open>
  The Python sources under verification are \<^verbatim>\<open>src/risk_manager.py\<close> (class
  \<^verbatim>\<open>RiskManager\<close>) and \<^verbatim>\<open>src/ensemble.py\<close> (class \<^verbatim>\<open>StrategyEnsemble\<close>).

  \<^item> Python \<^verbatim>\<open>float\<close> values are modelled by \<^typ>\<open>real\<close>: arithmetic is exact, so
    every statement below is about the algorithm in exact arithmetic, not about IEEE
    rounding.
  \<^item> A Python \<^verbatim>\<open>dict\<close> is an association list in insertion order; \<^verbatim>\<open>d[k] = v\<close> is
    \<^const>\<open>AList.update\<close> (replace in place, or append at the end), \<^verbatim>\<open>d.get(k, dflt)\<close>
    is \<open>dict_get\<close>.
  \<^item> A raised exception is the left summand of a sum type; \<^verbatim>\<open>None\<close> is \<^const>\<open>None\<close>.
\<close>

datatype py_error = ZeroDivisionError

definition py_div :: "real \<Rightarrow> real \<Rightarrow> py_error + real" where
  "py_div a b = (if b = 0 then Inl ZeroDivisionError else Inr (a / b))"

definition dict_get :: "('k \<times> 'v) list \<Rightarrow> 'k \<Rightarrow> 'v \<Rightarrow> 'v" where
  "dict_get d k dflt = (case map_of d k of None \<Rightarrow> dflt | Some v \<Rightarrow> v)"

definition dict_values_sum :: "('k \<times> real) list \<Rightarrow> real" where
  "dict_values_sum d = sum_list (map snd d)"

text \<open>
  Python's \<^verbatim>\<open>round(x, 2)\<close> rounds to the nearest multiple of \<open>1/100\<close>, a tie going to the
  even neighbour.
\<close>

definition round_half_even :: "real \<Rightarrow> int" where
  "round_half_even x =
     (let f = \<lfloor>x\<rfloor>; d = x - of_int f
      in if d < 1 / 2 then f
         else if 1 / 2 < d then f + 1
         else if even f then f else f + 1)"

definition py_round2 :: "real \<Rightarrow> real" where
  "py_round2 x = of_int (round_half_even (x * 100)) / 100"

section \<open>The signal contract\<close>

text \<open>
  Modelled from the spec: \<^verbatim>\<open>StrategySignal\<close> is declared in
  \<^verbatim>\<open>strategies/base_strategy.py\<close>, which is not among the sources. Its five fields are
  the ones every constructor call in the sources passes (\<^verbatim>\<open>probability\<close>,
  \<^verbatim>\<open>confidence\<close>, \<^verbatim>\<open>direction\<close>, \<^verbatim>\<open>reasoning\<close>, \<^verbatim>\<open>strength\<close>). The spec's data model
  gives \<^verbatim>\<open>direction\<close> the two values YES and NO; the sources test
  \<^verbatim>\<open>signal.direction == 'YES'\<close> and take the other branch otherwise. No range of the
  numeric fields is enforced.
\<close>

datatype direction = YES | NO

record StrategySignal =
  probability :: real
  confidence :: real
  direction :: direction
  reasoning :: string
  strength :: real

section \<open>Risk manager\<close>

text \<open>An open position is a dict read through \<^verbatim>\<open>pos.get('market_id')\<close> and
  \<^verbatim>\<open>pos.get('amount', 0)\<close>; a missing key is \<^const>\<open>None\<close>.\<close>

record position =
  market_id :: "string option"
  amount :: "real option"

record RiskManager =
  max_bet_amount :: real
  min_bet_amount :: real
  kelly_fraction :: real
  max_portfolio_risk :: real
  risk_tolerance :: real
  open_positions :: "position list"

text \<open>\<^verbatim>\<open>RiskManager.__init__\<close> with its default arguments.\<close>

definition RiskManager_init :: "real \<Rightarrow> real \<Rightarrow> real \<Rightarrow> real \<Rightarrow> real \<Rightarrow> RiskManager" where
  "RiskManager_init max_bet min_bet kf mpr rt =
     \<lparr>max_bet_amount = max_bet, min_bet_amount = min_bet, kelly_fraction = kf,
      max_portfolio_risk = mpr, risk_tolerance = rt, open_positions = []\<rparr>"

definition RiskManager_default :: RiskManager where
  "RiskManager_default = RiskManager_init 100 10 0.25 0.30 0.25"

definition add_position :: "RiskManager \<Rightarrow> position \<Rightarrow> RiskManager" where
  "add_position self pos = self\<lparr>open_positions := open_positions self @ [pos]\<rparr>"

definition get_current_risk :: "RiskManager \<Rightarrow> real" where
  "get_current_risk self =
     sum_list (map (\<lambda>pos. case amount pos of None \<Rightarrow> 0 | Some a \<Rightarrow> a) (open_positions self))"

definition check_portfolio_risk :: "RiskManager \<Rightarrow> real \<Rightarrow> real \<Rightarrow> bool" where
  "check_portfolio_risk self new_bet balance =
     (let current_risk = get_current_risk self;
          total_risk = current_risk + new_bet;
          max_risk = max_portfolio_risk self * balance
      in total_risk \<le> max_risk)"

text \<open>
  Lines 58--67 of \<^verbatim>\<open>calculate_bet_size\<close>: the branch on the direction computes
  \<open>(edge, win_prob, lose_prob, win_odds)\<close>. The division for the payout ratio is
  evaluated here, before any check, and raises on a zero divisor.
\<close>

definition edge_terms :: "StrategySignal \<Rightarrow> real \<Rightarrow> py_error + (real \<times> real \<times> real \<times> real)" where
  "edge_terms signal market_prob =
     (let estimated_prob = probability signal
      in if direction signal = YES then
           (case py_div (1 - market_prob) market_prob of
              Inl e \<Rightarrow> Inl e
            | Inr win_odds \<Rightarrow>
                Inr (estimated_prob - market_prob, estimated_prob, 1 - estimated_prob, win_odds))
         else
           (case py_div market_prob (1 - market_prob) of
              Inl e \<Rightarrow> Inl e
            | Inr win_odds \<Rightarrow>
                Inr (market_prob - estimated_prob, 1 - estimated_prob, estimated_prob, win_odds)))"

text \<open>Line 76: the full Kelly fraction \<open>(p * odds - q) / odds\<close>.\<close>

definition kelly_fraction_full :: "real \<Rightarrow> real \<Rightarrow> real \<Rightarrow> py_error + real" where
  "kelly_fraction_full win_prob lose_prob win_odds =
     py_div (win_prob * win_odds - lose_prob) win_odds"

text \<open>Lines 83--109: fractional Kelly, confidence, the absolute limits, the portfolio
  ceiling, the final floor and the rounding.\<close>

definition limit_bet :: "RiskManager \<Rightarrow> real \<Rightarrow> real \<Rightarrow> real option" where
  "limit_bet self balance confidence_adjusted_bet =
     (let bet_size = max (min_bet_amount self) (min (max_bet_amount self) confidence_adjusted_bet);
          bet_size =
            (if \<not> check_portfolio_risk self bet_size balance then
               (let max_additional_risk = max_portfolio_risk self * balance - get_current_risk self
                in min bet_size max_additional_risk)
             else bet_size)
      in if bet_size < min_bet_amount self then None else Some (py_round2 bet_size))"

definition calculate_bet_size ::
  "RiskManager \<Rightarrow> StrategySignal \<Rightarrow> (string \<times> real) list \<Rightarrow> real \<Rightarrow> py_error + real option" where
  "calculate_bet_size self signal market balance =
     (let market_prob = dict_get market ''probability'' 0.5
      in case edge_terms signal market_prob of
           Inl e \<Rightarrow> Inl e
         | Inr (edge, win_prob, lose_prob, win_odds) \<Rightarrow>
             if edge < 0.05 then Inr None
             else
               (case kelly_fraction_full win_prob lose_prob win_odds of
                  Inl e \<Rightarrow> Inl e
                | Inr kelly \<Rightarrow>
                    if kelly \<le> 0 then Inr None
                    else
                      (let kelly_bet = kelly * kelly_fraction self * balance;
                           confidence_adjusted_bet = kelly_bet * confidence signal
                       in Inr (limit_bet self balance confidence_adjusted_bet))))"

section \<open>Strategy ensemble\<close>

text \<open>
  \<^verbatim>\<open>self.strategies\<close> maps a strategy name to the strategy object; of the object only
  the \<^verbatim>\<open>enabled\<close> flag is kept. \<^verbatim>\<open>self.weights\<close> maps a name to its weight.
\<close>

record StrategyEnsemble =
  strategies :: "(string \<times> bool) list"
  weights :: "(string \<times> real) list"

text \<open>A dict comprehension \<^verbatim>\<open>{k: v for ...}\<close> over a sequence that may repeat a key.\<close>

definition dict_of_items :: "('k \<times> 'v) list \<Rightarrow> ('k \<times> 'v) list" where
  "dict_of_items items = foldl (\<lambda>d (k, v). AList.update k v d) [] items"

text \<open>\<^verbatim>\<open>_normalize_weights\<close>: the comprehension runs over the items of a dict, whose
  keys are distinct, so it is a map over the items.\<close>

definition normalize_weights :: "StrategyEnsemble \<Rightarrow> StrategyEnsemble" where
  "normalize_weights self =
     (let total = dict_values_sum (weights self)
      in if total > 0 then self\<lparr>weights := map (\<lambda>(k, v). (k, v / total)) (weights self)\<rparr>
         else self)"

text \<open>The weight map \<^verbatim>\<open>__init__\<close> starts from: \<^verbatim>\<open>weights or {uniform}\<close>, where \<^verbatim>\<open>None\<close>
  and the empty dict are both falsy.\<close>

definition initial_weights :: "(string \<times> bool) list \<Rightarrow> (string \<times> real) list option \<Rightarrow> (string \<times> real) list" where
  "initial_weights strategy_list weights_arg =
     (let uniform = dict_of_items (map (\<lambda>(name, s). (name, 1 / real (length strategy_list))) strategy_list)
      in case weights_arg of
           None \<Rightarrow> uniform
         | Some w \<Rightarrow> if w = [] then uniform else w)"

definition StrategyEnsemble_init :: "(string \<times> bool) list \<Rightarrow> (string \<times> real) list option \<Rightarrow> StrategyEnsemble" where
  "StrategyEnsemble_init strategy_list weights_arg =
     normalize_weights
       \<lparr>strategies = dict_of_items strategy_list,
        weights = initial_weights strategy_list weights_arg\<rparr>"

subsection \<open>Combining signals\<close>

record vote_acc =
  total_weight :: real
  weighted_prob :: real
  weighted_confidence :: real
  yes_votes :: real
  no_votes :: real

definition vote_zero :: vote_acc where
  "vote_zero = \<lparr>total_weight = 0, weighted_prob = 0, weighted_confidence = 0,
                yes_votes = 0, no_votes = 0\<rparr>"

text \<open>One iteration of the loop of \<^verbatim>\<open>_combine_signals\<close> (lines 73--83).\<close>

definition vote_step :: "(string \<times> real) list \<Rightarrow> vote_acc \<Rightarrow> string \<times> StrategySignal \<Rightarrow> vote_acc" where
  "vote_step ws acc item =
     (case item of (name, signal) \<Rightarrow>
        (let weight = dict_get ws name 0 * confidence signal
         in \<lparr>total_weight = total_weight acc + weight,
             weighted_prob = weighted_prob acc + probability signal * weight,
             weighted_confidence = weighted_confidence acc + confidence signal * weight,
             yes_votes = (if direction signal = YES then yes_votes acc + weight else yes_votes acc),
             no_votes = (if direction signal = YES then no_votes acc else no_votes acc + weight)\<rparr>))"

fun py_join :: "string \<Rightarrow> string list \<Rightarrow> string" where
  "py_join sep [] = []"
| "py_join sep [x] = x"
| "py_join sep (x # y # ys) = x @ sep @ py_join sep (y # ys)"

text \<open>
  \<^verbatim>\<open>_combine_signals\<close>. The parameter \<open>fmt\<close> stands for the f-string of lines 100--102,
  which formats a name, a percentage and a signal; the result's \<^verbatim>\<open>reasoning\<close> is the only
  field it reaches.
\<close>

definition combine_signals ::
  "(string \<Rightarrow> real \<Rightarrow> StrategySignal \<Rightarrow> string) \<Rightarrow> StrategyEnsemble \<Rightarrow>
   (string \<times> StrategySignal) list \<Rightarrow> StrategySignal option" where
  "combine_signals fmt self signals =
     (if signals = [] then None
      else
        (let acc = foldl (vote_step (weights self)) vote_zero signals
         in if total_weight acc = 0 then None
            else
              (let consensus_prob = weighted_prob acc / total_weight acc;
                   consensus_confidence = weighted_confidence acc / total_weight acc;
                   consensus_direction = (if yes_votes acc > no_votes acc then YES else NO);
                   agreement = \<bar>yes_votes acc - no_votes acc\<bar> / total_weight acc;
                   reasoning_parts =
                     map (\<lambda>(name, signal). fmt name (dict_get (weights self) name 0 * 100) signal)
                       signals
               in Some \<lparr>probability = consensus_prob, confidence = consensus_confidence,
                         direction = consensus_direction,
                         reasoning = ''Ensemble: '' @ py_join ''; '' reasoning_parts,
                         strength = agreement\<rparr>)))"

subsection \<open>Updating the weights\<close>

text \<open>The score of one entry of \<^verbatim>\<open>performance_data\<close> (lines 123--132); the entry is a
  dict read with \<^verbatim>\<open>perf.get(key, 0)\<close>.\<close>

definition performance_score :: "(string \<times> real) list \<Rightarrow> real" where
  "performance_score perf =
     (let win_rate = dict_get perf ''win_rate'' 0;
          total_return = dict_get perf ''total_return'' 0;
          total_trades = dict_get perf ''total_trades'' 0
      in if total_trades > 0 then max 0.1 (win_rate * 0.6 + (total_return / total_trades) * 0.4)
         else 0.5)"

text \<open>The loop of lines 119--132: names that are not registered are skipped.\<close>

definition score_step ::
  "StrategyEnsemble \<Rightarrow> (string \<times> real) list \<Rightarrow> string \<times> (string \<times> real) list \<Rightarrow> (string \<times> real) list" where
  "score_step self scores item =
     (case item of (name, perf) \<Rightarrow>
        if name \<notin> set (map fst (strategies self)) then scores
        else AList.update name (performance_score perf) scores)"

definition collect_scores ::
  "StrategyEnsemble \<Rightarrow> (string \<times> (string \<times> real) list) list \<Rightarrow> (string \<times> real) list" where
  "collect_scores self performance_data = foldl (score_step self) [] performance_data"

definition update_weights ::
  "StrategyEnsemble \<Rightarrow> (string \<times> (string \<times> real) list) list \<Rightarrow> StrategyEnsemble" where
  "update_weights self performance_data =
     (let scores = collect_scores self performance_data
      in if scores \<noteq> [] then
           (let total_score = dict_values_sum scores
            in if total_score > 0 then
                 self\<lparr>weights := map (\<lambda>(name, score). (name, score / total_score)) scores\<rparr>
               else self)
         else self)"

section \<open>Quantities named by the specification\<close>

text \<open>The directional edge in the specification's words: estimate minus market for
  YES, market minus estimate for NO.\<close>

definition directional_edge :: "StrategySignal \<Rightarrow> real \<Rightarrow> real" where
  "directional_edge signal market_probability =
     (if direction signal = YES then probability signal - market_probability
      else market_probability - probability signal)"

text \<open>Step 6 of the specification's sizing algorithm, in its words: the bet is shrunk to
  \<open>max(0, max_portfolio_risk * bankroll - open_exposure)\<close>; then steps 7 and 8 (floor
  and rounding).\<close>

definition spec_portfolio_shrink :: "RiskManager \<Rightarrow> real \<Rightarrow> real option" where
  "spec_portfolio_shrink self bankroll =
     (let shrunk = max 0 (max_portfolio_risk self * bankroll - get_current_risk self)
      in if shrunk < min_bet_amount self then None else Some (py_round2 shrunk))"



text \<open>The effective weight of one signal, in the specification's words: the configured
  weight of its estimator (zero when the estimator has none) times the signal's
  confidence; the total, and the masses of the two directions.\<close>

definition effective_weight :: "StrategyEnsemble \<Rightarrow> string \<times> StrategySignal \<Rightarrow> real" where
  "effective_weight self item = dict_get (weights self) (fst item) 0 * confidence (snd item)"

definition total_effective_weight :: "StrategyEnsemble \<Rightarrow> (string \<times> StrategySignal) list \<Rightarrow> real" where
  "total_effective_weight self signals = sum_list (map (effective_weight self) signals)"

definition direction_mass ::
  "StrategyEnsemble \<Rightarrow> direction \<Rightarrow> (string \<times> StrategySignal) list \<Rightarrow> real" where
  "direction_mass self d signals =
     sum_list (map (effective_weight self) (filter (\<lambda>item. direction (snd item) = d) signals))"

text \<open>The tolerance of the specification's normalisation property.\<close>

definition sums_to_one :: "(string \<times> real) list \<Rightarrow> bool" where
  "sums_to_one d = (\<bar>dict_values_sum d - 1\<bar> \<le> 1 / 10 ^ 9)"

section \<open>Verified properties\<close>

subsection \<open>The edge terms\<close>

lemma edge_terms_Inr:
  "market_prob \<noteq> (if direction signal = YES then 0 else 1) \<Longrightarrow>
   edge_terms signal market_prob =
     Inr (directional_edge signal market_prob,
          (if direction signal = YES then probability signal else 1 - probability signal),
          (if direction signal = YES then 1 - probability signal else probability signal),
          (if direction signal = YES then (1 - market_prob) / market_prob
           else market_prob / (1 - market_prob)))"
  by (auto simp add: edge_terms_def py_div_def directional_edge_def Let_def split: if_splits)

lemma edge_terms_Inl:
  "market_prob = (if direction signal = YES then 0 else 1) \<Longrightarrow>
   edge_terms signal market_prob = Inl ZeroDivisionError"
  by (auto simp add: edge_terms_def py_div_def Let_def split: if_splits)

subsection \<open>The minimum-edge guard\<close>

text \<open>
  C1, as stated: for every signal, market probability, bankroll and open-position state,
  \<^verbatim>\<open>calculate_bet_size\<close> returns \<^verbatim>\<open>None\<close> whenever the directional edge is below \<open>0.05\<close>.
  This fails where the payout-ratio division, which precedes the edge check, raises: a YES
  signal with estimate \<open>0.01\<close> on a market quoted at \<open>0\<close> has edge \<open>0.01\<close> and the call
  ends in \<^verbatim>\<open>ZeroDivisionError\<close>.
\<close>

theorem small_edge_counterexample:
  "directional_edge
      \<lparr>probability = 0.01, confidence = 0.8, direction = YES, reasoning = ''Test'', strength = 0.5\<rparr>
      (dict_get [(''probability'', 0)] ''probability'' 0.5) < 0.05
   \<and> calculate_bet_size RiskManager_default
        \<lparr>probability = 0.01, confidence = 0.8, direction = YES, reasoning = ''Test'', strength = 0.5\<rparr>
        [(''probability'', 0)] 1000 = Inl ZeroDivisionError"
  by (simp add: calculate_bet_size_def edge_terms_def py_div_def directional_edge_def dict_get_def)

text \<open>
  C1, amended: for every risk manager (hence every open-position state), signal and
  bankroll, and every market probability other than \<open>0\<close> for a YES signal and other than \<open>1\<close>
  for a NO signal, \<^verbatim>\<open>calculate_bet_size\<close> returns \<^verbatim>\<open>None\<close> whenever the directional edge is
  below \<open>0.05\<close>, whatever the confidence.
\<close>

theorem small_edge_returns_None:
  assumes "dict_get market ''probability'' 0.5 \<noteq> (if direction signal = YES then 0 else 1)"
    and "directional_edge signal (dict_get market ''probability'' 0.5) < 0.05"
  shows "calculate_bet_size self signal market balance = Inr None"
  using assms by (simp add: calculate_bet_size_def edge_terms_Inr)

theorem small_edge_returns_None_witness:
  "calculate_bet_size RiskManager_default
     \<lparr>probability = 0.51, confidence = 0.8, direction = YES, reasoning = ''Test'', strength = 0.5\<rparr>
     [(''probability'', 0.5)] 1000 = Inr None"
  using small_edge_returns_None
    [of "[(''probability'', 0.5)]"
        "\<lparr>probability = 0.51, confidence = 0.8, direction = YES, reasoning = ''Test'', strength = 0.5\<rparr>"
        RiskManager_default 1000]
  by (simp add: directional_edge_def dict_get_def)

subsection \<open>The Kelly step\<close>

lemma kelly_yes:
  assumes "0 < m" "m < 1"
  shows "kelly_fraction_full p (1 - p) ((1 - m) / m) = Inr ((p - m) / (1 - m))"
  using assms by (simp add: kelly_fraction_full_def py_div_def field_simps)

lemma kelly_no:
  assumes "0 < m" "m < 1"
  shows "kelly_fraction_full (1 - p) p (m / (1 - m)) = Inr ((m - p) / m)"
  using assms by (simp add: kelly_fraction_full_def py_div_def field_simps)

lemma kelly_positive:
  assumes "0 < market_prob" "market_prob < 1" "0 < directional_edge signal market_prob"
  shows "0 < directional_edge signal market_prob /
                  (if direction signal = YES then 1 - market_prob else market_prob)"
  using assms by simp

lemma calculate_bet_size_unfold:
  assumes "m = dict_get market ''probability'' 0.5"
  shows "calculate_bet_size self signal market balance =
     (case edge_terms signal m of
        Inl e \<Rightarrow> Inl e
      | Inr (edge, win_prob, lose_prob, win_odds) \<Rightarrow>
          if edge < 0.05 then Inr None
          else
            (case kelly_fraction_full win_prob lose_prob win_odds of
               Inl e \<Rightarrow> Inl e
             | Inr kelly \<Rightarrow>
                 if kelly \<le> 0 then Inr None
                 else Inr (limit_bet self balance
                        (kelly * kelly_fraction self * balance * confidence signal))))"
  unfolding assms by (simp only: calculate_bet_size_def Let_def)

lemma calculate_bet_size_inside:
  assumes m: "m = dict_get market ''probability'' 0.5" and "0 < m" "m < 1"
  shows "calculate_bet_size self signal market balance =
     (if directional_edge signal m < 0.05 then Inr None
      else Inr (limit_bet self balance
             (directional_edge signal m / (if direction signal = YES then 1 - m else m)
                * kelly_fraction self * balance * confidence signal)))"
proof (cases "direction signal = YES")
  case True
  have pos: "0 < (probability signal - m) / (1 - m)" if "\<not> probability signal - m < 0.05"
    using that assms(2,3) by simp
  show ?thesis
    unfolding calculate_bet_size_unfold [OF m]
    using True assms(2,3) pos
    by (auto simp add: edge_terms_def py_div_def kelly_yes directional_edge_def Let_def
          divide_le_0_iff)
next
  case False
  have pos: "0 < (m - probability signal) / m" if "\<not> m - probability signal < 0.05"
    using that assms(2,3) by simp
  show ?thesis
    unfolding calculate_bet_size_unfold [OF m]
    using False assms(2,3) pos
    by (auto simp add: edge_terms_def py_div_def kelly_no directional_edge_def Let_def
          divide_le_0_iff)
qed

text \<open>
  C9, as stated: there are a signal and a market probability strictly between \<open>0\<close> and \<open>1\<close>
  whose edge passes the minimum-edge check while the full Kelly fraction
  \<open>(win_prob * payout_odds - (1 - win_prob)) / payout_odds\<close> is at most \<open>0\<close>. No such
  pair exists: with the payout odds the code computes, the fraction is the edge divided by
  a positive number.
\<close>

theorem kelly_rejection_counterexample:
  "\<not> (\<exists>signal market_prob edge win_prob lose_prob payout_odds.
         0 < market_prob \<and> market_prob < 1
       \<and> edge_terms signal market_prob = Inr (edge, win_prob, lose_prob, payout_odds)
       \<and> 0.05 \<le> edge
       \<and> (win_prob * payout_odds - (1 - win_prob)) / payout_odds \<le> 0)"
proof
  assume "\<exists>signal market_prob edge win_prob lose_prob payout_odds.
         0 < market_prob \<and> market_prob < 1
       \<and> edge_terms signal market_prob = Inr (edge, win_prob, lose_prob, payout_odds)
       \<and> 0.05 \<le> edge
       \<and> (win_prob * payout_odds - (1 - win_prob)) / payout_odds \<le> 0"
  then obtain signal m e w l odds where m: "0 < m" "m < 1"
    and et: "edge_terms signal m = Inr (e, w, l, odds)"
    and e: "0.05 \<le> e" and k: "(w * odds - (1 - w)) / odds \<le> 0"
    by blast
  from m have ne: "m \<noteq> (if direction signal = YES then 0 else 1)" by auto
  from et edge_terms_Inr [OF ne]
  have e_eq: "e = directional_edge signal m"
    and w_eq: "w = (if direction signal = YES then probability signal else 1 - probability signal)"
    and o_eq: "odds = (if direction signal = YES then (1 - m) / m else m / (1 - m))"
    by simp_all
  have "(w * odds - (1 - w)) / odds
       = directional_edge signal m / (if direction signal = YES then 1 - m else m)"
    using m unfolding w_eq o_eq directional_edge_def by (simp add: field_simps)
  moreover have "0 < directional_edge signal m / (if direction signal = YES then 1 - m else m)"
    using kelly_positive [OF m, of signal] e e_eq by simp
  ultimately show False using k by simp
qed

text \<open>
  C9, amended: for every signal and every market probability strictly between \<open>0\<close> and
  \<open>1\<close>, the full Kelly fraction equals the directional edge divided by
  \<open>1 - market_probability\<close> (YES) or by \<open>market_probability\<close> (NO); whenever the edge
  passes the minimum-edge check it is strictly positive, the Kelly check passes too, and
  \<^verbatim>\<open>calculate_bet_size\<close> goes on to limit the scaled bet.
\<close>

theorem kelly_check_passes_after_edge_check:
  assumes "m = dict_get market ''probability'' 0.5" and "0 < m" and "m < 1"
    and "0.05 \<le> directional_edge signal m"
  shows "\<exists>kelly. 0 < kelly
       \<and> kelly = directional_edge signal m / (if direction signal = YES then 1 - m else m)
       \<and> calculate_bet_size self signal market balance
           = Inr (limit_bet self balance (kelly * kelly_fraction self * balance * confidence signal))"
proof -
  let ?k = "directional_edge signal m / (if direction signal = YES then 1 - m else m)"
  have pos: "0 < ?k" using kelly_positive [OF assms(2,3), of signal] assms(4) by simp
  have "calculate_bet_size self signal market balance
           = Inr (limit_bet self balance (?k * kelly_fraction self * balance * confidence signal))"
    using assms(4) by (simp add: calculate_bet_size_inside [OF assms(1,2,3)])
  with pos show ?thesis by blast
qed

theorem kelly_check_passes_after_edge_check_witness:
  "\<exists>kelly. 0 < kelly \<and> kelly = 2 / 5
     \<and> calculate_bet_size RiskManager_default
          \<lparr>probability = 0.7, confidence = 0.8, direction = YES, reasoning = ''Test'', strength = 0.75\<rparr>
          [(''probability'', 0.5)] 1000
        = Inr (limit_bet RiskManager_default 1000 (kelly * kelly_fraction RiskManager_default * 1000 * 0.8))"
  using kelly_check_passes_after_edge_check
    [of "0.5" "[(''probability'', 0.5)]"
        "\<lparr>probability = 0.7, confidence = 0.8, direction = YES, reasoning = ''Test'', strength = 0.75\<rparr>"
        RiskManager_default 1000]
  by (simp add: directional_edge_def dict_get_def)

subsection \<open>Totality and the unguarded divisions\<close>

text \<open>
  C10: \<^verbatim>\<open>calculate_bet_size\<close> divides by the market probability for a YES signal and by
  one minus it for a NO signal, with no guard: a YES signal at market probability \<open>0\<close> and
  a NO signal at market probability \<open>1\<close> end in \<^verbatim>\<open>ZeroDivisionError\<close>, not in \<^verbatim>\<open>None\<close>.
  Strictly between \<open>0\<close> and \<open>1\<close> every call returns, and among the probabilities
  \<open>0 \<le> mp \<le> 1\<close> the calls return for all signals exactly when \<open>0 < mp < 1\<close>.
\<close>

theorem division_guard:
  assumes mp: "mp = dict_get market ''probability'' 0.5"
  shows "(direction signal = YES \<and> mp = 0 \<longrightarrow>
            calculate_bet_size self signal market balance = Inl ZeroDivisionError)
       \<and> (direction signal = NO \<and> mp = 1 \<longrightarrow>
            calculate_bet_size self signal market balance = Inl ZeroDivisionError)
       \<and> (0 < mp \<and> mp < 1 \<longrightarrow> (\<exists>r. calculate_bet_size self signal market balance = Inr r))
       \<and> (0 \<le> mp \<and> mp \<le> 1 \<longrightarrow>
            ((\<forall>self' signal' balance'. \<exists>r. calculate_bet_size self' signal' market balance' = Inr r)
             \<longleftrightarrow> 0 < mp \<and> mp < 1))"
proof -
  have yes0: "calculate_bet_size s g market b = Inl ZeroDivisionError"
    if "direction g = YES" "mp = 0" for s g b
    using that by (simp add: calculate_bet_size_unfold [OF mp] edge_terms_Inl)
  have no1: "calculate_bet_size s g market b = Inl ZeroDivisionError"
    if "direction g = NO" "mp = 1" for s g b
    using that by (simp add: calculate_bet_size_unfold [OF mp] edge_terms_Inl)
  have inside: "\<exists>r. calculate_bet_size s g market b = Inr r" if "0 < mp" "mp < 1" for s g b
    using that by (simp add: calculate_bet_size_inside [OF mp])
  have total: "(\<forall>self' signal' balance'. \<exists>r. calculate_bet_size self' signal' market balance' = Inr r)
             \<longleftrightarrow> 0 < mp \<and> mp < 1" if "0 \<le> mp" "mp \<le> 1"
  proof
    assume all: "\<forall>self' signal' balance'. \<exists>r. calculate_bet_size self' signal' market balance' = Inr r"
    have "mp \<noteq> 0"
    proof
      assume "mp = 0"
      from all obtain r where
        "calculate_bet_size RiskManager_default
           \<lparr>probability = 0, confidence = 0, direction = YES, reasoning = [], strength = 0\<rparr>
           market 0 = Inr r"
        by blast
      with yes0 [of "\<lparr>probability = 0, confidence = 0, direction = YES, reasoning = [], strength = 0\<rparr>"
                    RiskManager_default 0] \<open>mp = 0\<close>
      show False by simp
    qed
    moreover have "mp \<noteq> 1"
    proof
      assume "mp = 1"
      from all obtain r where
        "calculate_bet_size RiskManager_default
           \<lparr>probability = 0, confidence = 0, direction = NO, reasoning = [], strength = 0\<rparr>
           market 0 = Inr r"
        by blast
      with no1 [of "\<lparr>probability = 0, confidence = 0, direction = NO, reasoning = [], strength = 0\<rparr>"
                    RiskManager_default 0] \<open>mp = 1\<close>
      show False by simp
    qed
    ultimately show "0 < mp \<and> mp < 1" using that by simp
  next
    assume "0 < mp \<and> mp < 1"
    then show "\<forall>self' signal' balance'. \<exists>r. calculate_bet_size self' signal' market balance' = Inr r"
      using inside by blast
  qed
  show ?thesis using yes0 no1 inside total by blast
qed

theorem division_guard_witness:
  "calculate_bet_size RiskManager_default
     \<lparr>probability = 0.7, confidence = 0.8, direction = YES, reasoning = ''Test'', strength = 0.75\<rparr>
     [(''probability'', 0)] 1000 = Inl ZeroDivisionError
   \<and> calculate_bet_size RiskManager_default
     \<lparr>probability = 0.3, confidence = 0.8, direction = NO, reasoning = ''Test'', strength = 0.75\<rparr>
     [(''probability'', 1)] 1000 = Inl ZeroDivisionError
   \<and> (\<exists>r. calculate_bet_size RiskManager_default
     \<lparr>probability = 0.7, confidence = 0.8, direction = YES, reasoning = ''Test'', strength = 0.75\<rparr>
     [(''probability'', 0.5)] 1000 = Inr r)
   \<and> (\<forall>self' signal' balance'. \<exists>r. calculate_bet_size self' signal' [(''probability'', 0.5)] balance' = Inr r)"
  using division_guard
    [of 0 "[(''probability'', 0)]"
        "\<lparr>probability = 0.7, confidence = 0.8, direction = YES, reasoning = ''Test'', strength = 0.75\<rparr>"
        RiskManager_default 1000]
    division_guard
    [of 1 "[(''probability'', 1)]"
        "\<lparr>probability = 0.3, confidence = 0.8, direction = NO, reasoning = ''Test'', strength = 0.75\<rparr>"
        RiskManager_default 1000]
    division_guard
    [of "0.5" "[(''probability'', 0.5)]"
        "\<lparr>probability = 0.7, confidence = 0.8, direction = YES, reasoning = ''Test'', strength = 0.75\<rparr>"
        RiskManager_default 1000]
  by (simp add: dict_get_def)

subsection \<open>Rounding to two decimals\<close>

lemma round_half_even_of_int: "round_half_even (of_int n) = n"
  by (simp add: round_half_even_def)

lemma round_half_even_bounds:
  "\<lfloor>x\<rfloor> \<le> round_half_even x" "round_half_even x \<le> \<lfloor>x\<rfloor> + 1"
  by (simp_all add: round_half_even_def Let_def)

lemma round_half_even_mono:
  assumes "x \<le> y"
  shows "round_half_even x \<le> round_half_even y"
proof (cases "\<lfloor>x\<rfloor> = \<lfloor>y\<rfloor>")
  case True
  then show ?thesis using assms
    by (auto simp add: round_half_even_def Let_def)
next
  case False
  with floor_mono [OF assms] have "\<lfloor>x\<rfloor> + 1 \<le> \<lfloor>y\<rfloor>" by simp
  with round_half_even_bounds(2) [of x] round_half_even_bounds(1) [of y]
  show ?thesis by linarith
qed

lemma py_round2_mono: "x \<le> y \<Longrightarrow> py_round2 x \<le> py_round2 y"
  by (simp add: py_round2_def round_half_even_mono divide_right_mono)

lemma py_round2_grid: "x * 100 \<in> \<int> \<Longrightarrow> py_round2 x = x"
  by (auto simp add: py_round2_def round_half_even_of_int elim!: Ints_cases)

subsection \<open>The limits on the bet\<close>

text \<open>The portfolio check passes exactly when the clamped bet is at most the remaining
  room, so both branches of the check leave the minimum of the two.\<close>

lemma limit_bet_min:
  "limit_bet self balance x =
     (let bet_size = min (max (min_bet_amount self) (min (max_bet_amount self) x))
                         (max_portfolio_risk self * balance - get_current_risk self)
      in if bet_size < min_bet_amount self then None else Some (py_round2 bet_size))"
  by (auto simp add: limit_bet_def check_portfolio_risk_def Let_def min_def)

lemma limit_bet_Some_bounds:
  assumes "limit_bet self balance x = Some a"
    and "min_bet_amount self \<le> max_bet_amount self"
  shows "\<exists>bet. min_bet_amount self \<le> bet \<and> bet \<le> max_bet_amount self \<and> a = py_round2 bet"
proof -
  define bet where "bet = min (max (min_bet_amount self) (min (max_bet_amount self) x))
                (max_portfolio_risk self * balance - get_current_risk self)"
  have "limit_bet self balance x
          = (if bet < min_bet_amount self then None else Some (py_round2 bet))"
    unfolding bet_def by (simp only: limit_bet_min Let_def)
  with assms(1) have lo: "min_bet_amount self \<le> bet" and a: "a = py_round2 bet"
    by (auto split: if_splits)
  have "bet \<le> max (min_bet_amount self) (min (max_bet_amount self) x)"
    unfolding bet_def by (rule min.cobounded1)
  also have "\<dots> \<le> max_bet_amount self" using assms(2) by simp
  finally have hi: "bet \<le> max_bet_amount self" .
  from lo hi a show ?thesis by blast
qed

lemma calculate_bet_size_Some:
  assumes "calculate_bet_size self signal market balance = Inr (Some a)"
  shows "\<exists>x. limit_bet self balance x = Some a"
  using assms
  by (auto simp add: calculate_bet_size_def Let_def split: sum.splits prod.splits if_splits)

lemmas sizing_defs =
  calculate_bet_size_def edge_terms_def py_div_def kelly_fraction_full_def limit_bet_def
  check_portfolio_risk_def get_current_risk_def add_position_def RiskManager_default_def
  RiskManager_init_def dict_get_def py_round2_def round_half_even_def Let_def

text \<open>
  C5, as stated: under a configuration with \<open>0 < min_bet \<le> max_bet\<close>, a returned amount
  lies within \<open>[min_bet, max_bet]\<close>. The final \<^verbatim>\<open>round(bet_size, 2)\<close> can leave the
  interval when a bound is not a multiple of \<open>0.01\<close>: with \<open>min_bet = 10.004\<close> a bet
  clamped up to the floor is returned as \<open>10.0\<close>.
\<close>

theorem bet_size_within_limits_counterexample:
  "0 < min_bet_amount (RiskManager_init 100 10.004 0.25 0.30 0.25)
   \<and> min_bet_amount (RiskManager_init 100 10.004 0.25 0.30 0.25)
       \<le> max_bet_amount (RiskManager_init 100 10.004 0.25 0.30 0.25)
   \<and> calculate_bet_size (RiskManager_init 100 10.004 0.25 0.30 0.25)
        \<lparr>probability = 0.7, confidence = 0.1, direction = YES, reasoning = ''Test'', strength = 0.75\<rparr>
        [(''probability'', 0.5)] 1000 = Inr (Some 10)
   \<and> (10 :: real) < min_bet_amount (RiskManager_init 100 10.004 0.25 0.30 0.25)"
  by (simp add: sizing_defs)

text \<open>
  C5, amended: whenever \<^verbatim>\<open>calculate_bet_size\<close> returns an amount under a configuration
  with \<open>min_bet \<le> max_bet\<close>, the amount is the rounding to two decimals of a bet within
  \<open>[min_bet, max_bet]\<close>, so it lies between the two bounds rounded to two decimals; when
  both bounds are multiples of \<open>0.01\<close> (as the integer defaults are) it lies within
  \<open>[min_bet, max_bet]\<close>, both ends included.
\<close>

theorem bet_size_within_limits:
  assumes "calculate_bet_size self signal market balance = Inr (Some a)"
    and "min_bet_amount self \<le> max_bet_amount self"
  shows "(\<exists>bet. min_bet_amount self \<le> bet \<and> bet \<le> max_bet_amount self \<and> a = py_round2 bet)
       \<and> py_round2 (min_bet_amount self) \<le> a \<and> a \<le> py_round2 (max_bet_amount self)
       \<and> (min_bet_amount self * 100 \<in> \<int> \<and> max_bet_amount self * 100 \<in> \<int> \<longrightarrow>
            min_bet_amount self \<le> a \<and> a \<le> max_bet_amount self)"
proof -
  from calculate_bet_size_Some [OF assms(1)] obtain x where "limit_bet self balance x = Some a" ..
  from limit_bet_Some_bounds [OF this assms(2)] obtain bet
    where lo: "min_bet_amount self \<le> bet" and hi: "bet \<le> max_bet_amount self"
      and a: "a = py_round2 bet"
    by blast
  have rlo: "py_round2 (min_bet_amount self) \<le> a" unfolding a by (rule py_round2_mono [OF lo])
  have rhi: "a \<le> py_round2 (max_bet_amount self)" unfolding a by (rule py_round2_mono [OF hi])
  have grid: "min_bet_amount self \<le> a \<and> a \<le> max_bet_amount self"
    if "min_bet_amount self * 100 \<in> \<int>" "max_bet_amount self * 100 \<in> \<int>"
    using rlo rhi that by (simp add: py_round2_grid)
  from lo hi a rlo rhi grid show ?thesis by blast
qed

theorem bet_size_within_limits_witness:
  "calculate_bet_size RiskManager_default
        \<lparr>probability = 0.7, confidence = 0.8, direction = YES, reasoning = ''Test'', strength = 0.75\<rparr>
        [(''probability'', 0.5)] 1000 = Inr (Some 80)
   \<and> min_bet_amount RiskManager_default * 100 \<in> \<int>
   \<and> max_bet_amount RiskManager_default * 100 \<in> \<int>
   \<and> min_bet_amount RiskManager_default \<le> 80 \<and> 80 \<le> max_bet_amount RiskManager_default"
proof -
  have r: "calculate_bet_size RiskManager_default
        \<lparr>probability = 0.7, confidence = 0.8, direction = YES, reasoning = ''Test'', strength = 0.75\<rparr>
        [(''probability'', 0.5)] 1000 = Inr (Some 80)"
    by (simp add: sizing_defs)
  have le: "min_bet_amount RiskManager_default \<le> max_bet_amount RiskManager_default"
    by (simp add: RiskManager_default_def RiskManager_init_def)
  have g: "min_bet_amount RiskManager_default * 100 \<in> \<int>"
          "max_bet_amount RiskManager_default * 100 \<in> \<int>"
    by (simp_all add: RiskManager_default_def RiskManager_init_def)
  from bet_size_within_limits [OF r le] r g show ?thesis by blast
qed

subsection \<open>Monotonicity in the confidence\<close>


lemma edge_terms_confidence [simp]:
  "edge_terms (signal\<lparr>confidence := c\<rparr>) m = edge_terms signal m"
  by (simp add: edge_terms_def)





subsection \<open>The portfolio ceiling\<close>

lemma limit_bet_shrunk:
  assumes "\<not> check_portfolio_risk self
               (max (min_bet_amount self) (min (max_bet_amount self) x)) balance"
  shows "limit_bet self balance x =
     (let shrunk = max_portfolio_risk self * balance - get_current_risk self
      in if shrunk < min_bet_amount self then None else Some (py_round2 shrunk))"
proof -
  have "max_portfolio_risk self * balance - get_current_risk self
          < max (min_bet_amount self) (min (max_bet_amount self) x)"
    using assms by (simp add: check_portfolio_risk_def Let_def)
  then have "min (max (min_bet_amount self) (min (max_bet_amount self) x))
                 (max_portfolio_risk self * balance - get_current_risk self)
             = max_portfolio_risk self * balance - get_current_risk self"
    by (rule min_absorb2 [OF less_imp_le])
  then show ?thesis by (simp only: limit_bet_min)
qed

text \<open>
  C4, as stated: past the portfolio ceiling the bet is shrunk to
  \<open>max(0, max_portfolio_risk * bankroll - open_exposure)\<close> and that amount is returned when
  it is at least \<open>min_bet\<close>. The code takes the remaining room without the floor at \<open>0\<close>:
  with \<open>min_bet = 0\<close>, exposure \<open>400\<close> and ceiling \<open>300\<close> the room is \<open>-100\<close>, the code
  returns \<^verbatim>\<open>None\<close>, and the statement's amount would be \<open>0\<close>.
\<close>

theorem portfolio_ceiling_shrinks_counterexample:
  "\<not> check_portfolio_risk
        (add_position (RiskManager_init 100 0 0.25 0.30 0.25) \<lparr>market_id = Some ''m1'', amount = Some 400\<rparr>)
        (max 0 (min 100 80)) 1000
   \<and> limit_bet
        (add_position (RiskManager_init 100 0 0.25 0.30 0.25) \<lparr>market_id = Some ''m1'', amount = Some 400\<rparr>)
        1000 80 = None
   \<and> calculate_bet_size
        (add_position (RiskManager_init 100 0 0.25 0.30 0.25) \<lparr>market_id = Some ''m1'', amount = Some 400\<rparr>)
        \<lparr>probability = 0.7, confidence = 0.8, direction = YES, reasoning = ''Test'', strength = 0.75\<rparr>
        [(''probability'', 0.5)] 1000 = Inr None
   \<and> spec_portfolio_shrink
        (add_position (RiskManager_init 100 0 0.25 0.30 0.25) \<lparr>market_id = Some ''m1'', amount = Some 400\<rparr>)
        1000 = Some 0"
  by (simp add: sizing_defs spec_portfolio_shrink_def)

text \<open>
  C4, amended: when the clamped bet plus the open exposure exceeds
  \<open>max_portfolio_risk * bankroll\<close>, the bet is shrunk to
  \<open>max_portfolio_risk * bankroll - open_exposure\<close> (not floored at \<open>0\<close>) instead of being
  rejected at that stage; the result is that amount rounded to two decimals when it is at
  least \<open>min_bet\<close>, and \<^verbatim>\<open>None\<close> otherwise. For \<open>min_bet > 0\<close> this is the result the
  stated \<open>max(0, ...)\<close> gives. With exposure \<open>280\<close>, bankroll \<open>1000\<close>, ceiling \<open>0.30\<close> and
  raw bet \<open>80\<close> the result is \<open>20.0\<close>; with exposure \<open>295\<close> it is \<^verbatim>\<open>None\<close>.
\<close>

theorem portfolio_ceiling_shrinks:
  "(\<not> check_portfolio_risk self
         (max (min_bet_amount self) (min (max_bet_amount self) x)) balance \<longrightarrow>
      limit_bet self balance x =
        (let shrunk = max_portfolio_risk self * balance - get_current_risk self
         in if shrunk < min_bet_amount self then None else Some (py_round2 shrunk))
      \<and> (0 < min_bet_amount self \<longrightarrow> limit_bet self balance x = spec_portfolio_shrink self balance))
   \<and> calculate_bet_size
        (add_position RiskManager_default \<lparr>market_id = Some ''m1'', amount = Some 280\<rparr>)
        \<lparr>probability = 0.7, confidence = 0.8, direction = YES, reasoning = ''Test'', strength = 0.75\<rparr>
        [(''probability'', 0.5)] 1000 = Inr (Some 20)
   \<and> calculate_bet_size
        (add_position RiskManager_default \<lparr>market_id = Some ''m1'', amount = Some 295\<rparr>)
        \<lparr>probability = 0.7, confidence = 0.8, direction = YES, reasoning = ''Test'', strength = 0.75\<rparr>
        [(''probability'', 0.5)] 1000 = Inr None"
proof -
  have spec: "limit_bet self balance x = spec_portfolio_shrink self balance"
    if "\<not> check_portfolio_risk self
         (max (min_bet_amount self) (min (max_bet_amount self) x)) balance"
      and "0 < min_bet_amount self"
    using that(2) unfolding limit_bet_shrunk [OF that(1)] spec_portfolio_shrink_def
    by (auto simp add: Let_def max_def)
  have s1: "calculate_bet_size
        (add_position RiskManager_default \<lparr>market_id = Some ''m1'', amount = Some 280\<rparr>)
        \<lparr>probability = 0.7, confidence = 0.8, direction = YES, reasoning = ''Test'', strength = 0.75\<rparr>
        [(''probability'', 0.5)] 1000 = Inr (Some 20)"
    by (simp add: sizing_defs)
  have s2: "calculate_bet_size
        (add_position RiskManager_default \<lparr>market_id = Some ''m1'', amount = Some 295\<rparr>)
        \<lparr>probability = 0.7, confidence = 0.8, direction = YES, reasoning = ''Test'', strength = 0.75\<rparr>
        [(''probability'', 0.5)] 1000 = Inr None"
    by (simp add: sizing_defs)
  show ?thesis using limit_bet_shrunk spec s1 s2 by blast
qed

theorem portfolio_ceiling_shrinks_witness:
  "limit_bet (add_position RiskManager_default \<lparr>market_id = Some ''m1'', amount = Some 280\<rparr>) 1000 80
     = Some 20
   \<and> spec_portfolio_shrink
       (add_position RiskManager_default \<lparr>market_id = Some ''m1'', amount = Some 280\<rparr>) 1000 = Some 20"
proof -
  let ?rm = "add_position RiskManager_default \<lparr>market_id = Some ''m1'', amount = Some 280\<rparr>"
  have c: "\<not> check_portfolio_risk ?rm (max (min_bet_amount ?rm) (min (max_bet_amount ?rm) 80)) 1000"
    by (simp add: sizing_defs)
  have p: "0 < min_bet_amount ?rm" by (simp add: sizing_defs)
  have e: "spec_portfolio_shrink ?rm 1000 = Some 20"
    by (simp add: sizing_defs spec_portfolio_shrink_def)
  from portfolio_ceiling_shrinks [of ?rm 80 1000] c p
  have "limit_bet ?rm 1000 80 = spec_portfolio_shrink ?rm 1000" by blast
  with e show ?thesis by simp
qed

subsection \<open>The consensus signal\<close>

text \<open>The loop of \<^verbatim>\<open>_combine_signals\<close> adds the five sums to the accumulator.\<close>

lemma foldl_vote_step:
  "foldl (vote_step (weights self)) acc signals =
     \<lparr>total_weight = total_weight acc + total_effective_weight self signals,
      weighted_prob = weighted_prob acc
         + (\<Sum>item\<leftarrow>signals. probability (snd item) * effective_weight self item),
      weighted_confidence = weighted_confidence acc
         + (\<Sum>item\<leftarrow>signals. confidence (snd item) * effective_weight self item),
      yes_votes = yes_votes acc + direction_mass self YES signals,
      no_votes = no_votes acc + direction_mass self NO signals\<rparr>"
proof (induction signals arbitrary: acc)
  case Nil
  show ?case by (simp add: total_effective_weight_def direction_mass_def)
next
  case (Cons item signals)
  obtain name signal where item: "item = (name, signal)" by (cases item)
  have d: "direction signal \<noteq> YES \<longleftrightarrow> direction signal = NO"
    by (cases "direction signal") auto
  show ?case
    unfolding foldl_Cons Cons.IH
    by (simp add: item vote_step_def effective_weight_def total_effective_weight_def
          direction_mass_def d Let_def algebra_simps)
qed

lemma combine_signals_eq:
  "combine_signals fmt self signals =
     (if signals = [] \<or> total_effective_weight self signals = 0 then None
      else Some \<lparr>probability =
                   (\<Sum>item\<leftarrow>signals. probability (snd item) * effective_weight self item)
                     / total_effective_weight self signals,
                 confidence =
                   (\<Sum>item\<leftarrow>signals. confidence (snd item) * effective_weight self item)
                     / total_effective_weight self signals,
                 direction =
                   (if direction_mass self YES signals > direction_mass self NO signals
                    then YES else NO),
                 reasoning = ''Ensemble: '' @ py_join ''; ''
                   (map (\<lambda>(name, signal). fmt name (dict_get (weights self) name 0 * 100) signal)
                      signals),
                 strength = \<bar>direction_mass self YES signals - direction_mass self NO signals\<bar>
                     / total_effective_weight self signals\<rparr>)"
  by (simp add: combine_signals_def foldl_vote_step vote_zero_def Let_def)

lemmas ensemble_defs =
  total_effective_weight_def effective_weight_def direction_mass_def dict_get_def
  dict_values_sum_def

text \<open>
  C3: for a non-empty signal mapping whose total effective weight is not zero,
  \<^verbatim>\<open>_combine_signals\<close> returns a consensus whose probability and confidence are the
  effective-weight averages of the signals' probabilities and confidences, whose direction
  is YES exactly when the YES mass strictly exceeds the NO mass (a tie gives NO), and whose
  strength is the absolute difference of the two masses over the total weight.
\<close>

theorem combine_signals_consensus:
  assumes "signals \<noteq> []" and "total_effective_weight self signals \<noteq> 0"
  shows "\<exists>consensus. combine_signals fmt self signals = Some consensus
       \<and> probability consensus =
            (\<Sum>item\<leftarrow>signals. probability (snd item) * effective_weight self item)
              / total_effective_weight self signals
       \<and> confidence consensus =
            (\<Sum>item\<leftarrow>signals. confidence (snd item) * effective_weight self item)
              / total_effective_weight self signals
       \<and> (direction consensus = YES \<longleftrightarrow>
            direction_mass self YES signals > direction_mass self NO signals)
       \<and> (direction_mass self YES signals = direction_mass self NO signals \<longrightarrow>
            direction consensus = NO)
       \<and> strength consensus =
            \<bar>direction_mass self YES signals - direction_mass self NO signals\<bar>
              / total_effective_weight self signals"
  using assms by (simp add: combine_signals_eq)

theorem combine_signals_consensus_witness:
  "\<exists>consensus.
      combine_signals (\<lambda>name pct signal. name)
        \<lparr>strategies = [(''a'', True), (''b'', True)], weights = [(''a'', 3 / 4), (''b'', 1 / 4)]\<rparr>
        [(''a'', \<lparr>probability = 0.7, confidence = 0.2, direction = YES, reasoning = ''r'', strength = 0.5\<rparr>),
         (''b'', \<lparr>probability = 0.4, confidence = 0.6, direction = NO, reasoning = ''r'', strength = 0.5\<rparr>)]
        = Some consensus
    \<and> probability consensus = 11 / 20
    \<and> confidence consensus = 2 / 5
    \<and> direction consensus = NO
    \<and> strength consensus = 0"
  using combine_signals_consensus
    [of "[(''a'', \<lparr>probability = 0.7, confidence = 0.2, direction = YES, reasoning = ''r'', strength = 0.5\<rparr>),
          (''b'', \<lparr>probability = 0.4, confidence = 0.6, direction = NO, reasoning = ''r'', strength = 0.5\<rparr>)]"
        "\<lparr>strategies = [(''a'', True), (''b'', True)], weights = [(''a'', 3 / 4), (''b'', 1 / 4)]\<rparr>"
        "\<lambda>name pct signal. name"]
  by (auto simp add: ensemble_defs)

lemma zero_confidence_total:
  assumes "\<forall>item \<in> set signals. confidence (snd item) = 0"
  shows "total_effective_weight self signals = 0"
  using assms by (induction signals) (simp_all add: total_effective_weight_def effective_weight_def)

text \<open>
  C8: \<^verbatim>\<open>_combine_signals\<close> returns \<^verbatim>\<open>None\<close> exactly when the signal mapping is empty or
  the total effective weight is zero; in particular for the empty mapping and for signals
  whose confidences are all zero; for every other input a consensus is returned.
\<close>

theorem combine_signals_None_iff:
  "(combine_signals fmt self signals = None \<longleftrightarrow>
      signals = [] \<or> total_effective_weight self signals = 0)
   \<and> combine_signals fmt self [] = None
   \<and> ((\<forall>item \<in> set signals. confidence (snd item) = 0) \<longrightarrow>
         combine_signals fmt self signals = None)
   \<and> (signals \<noteq> [] \<and> total_effective_weight self signals \<noteq> 0 \<longrightarrow>
         (\<exists>consensus. combine_signals fmt self signals = Some consensus))"
  using zero_confidence_total [of signals self] by (simp add: combine_signals_eq)

theorem combine_signals_None_iff_witness:
  "combine_signals (\<lambda>name pct signal. name)
      \<lparr>strategies = [(''a'', True)], weights = [(''a'', 1)]\<rparr> [] = None
   \<and> combine_signals (\<lambda>name pct signal. name)
      \<lparr>strategies = [(''a'', True)], weights = [(''a'', 1)]\<rparr>
      [(''a'', \<lparr>probability = 0.7, confidence = 0, direction = YES, reasoning = ''r'', strength = 0.5\<rparr>)]
      = None
   \<and> combine_signals (\<lambda>name pct signal. name)
      \<lparr>strategies = [(''a'', True)], weights = [(''a'', 1)]\<rparr>
      [(''a'', \<lparr>probability = 0.7, confidence = 0.8, direction = YES, reasoning = ''r'', strength = 0.5\<rparr>)]
      \<noteq> None"
  using combine_signals_None_iff
    [of "\<lambda>name pct signal. name" "\<lparr>strategies = [(''a'', True)], weights = [(''a'', 1)]\<rparr>" "[]"]
    combine_signals_None_iff
    [of "\<lambda>name pct signal. name" "\<lparr>strategies = [(''a'', True)], weights = [(''a'', 1)]\<rparr>"
        "[(''a'', \<lparr>probability = 0.7, confidence = 0, direction = YES, reasoning = ''r'', strength = 0.5\<rparr>)]"]
    combine_signals_None_iff
    [of "\<lambda>name pct signal. name" "\<lparr>strategies = [(''a'', True)], weights = [(''a'', 1)]\<rparr>"
        "[(''a'', \<lparr>probability = 0.7, confidence = 0.8, direction = YES, reasoning = ''r'', strength = 0.5\<rparr>)]"]
  by (simp add: ensemble_defs)

subsection \<open>The weight map\<close>

lemma sum_list_divide:
  fixes t :: real
  shows "(\<Sum>x\<leftarrow>xs. f x / t) = (\<Sum>x\<leftarrow>xs. f x) / t"
  by (induction xs) (simp_all add: add_divide_distrib)

lemma dict_values_sum_scaled:
  "dict_values_sum (map (\<lambda>(k, v). (k, v / t)) d) = dict_values_sum d / t"
  by (induction d) (auto simp add: dict_values_sum_def add_divide_distrib)

lemma normalize_weights_sum:
  "dict_values_sum (weights (normalize_weights self)) =
     (if 0 < dict_values_sum (weights self) then 1 else dict_values_sum (weights self))"
  by (simp add: normalize_weights_def Let_def dict_values_sum_scaled)

lemma performance_score_pos: "0 < performance_score perf"
  by (simp add: performance_score_def Let_def max_def)

lemma set_update_subset: "set (AList.update k v al) \<subseteq> insert (k, v) (set al)"
  by (induction al) auto

lemma collect_scores_pos_aux:
  assumes "\<forall>e \<in> set acc. 0 < snd e"
  shows "\<forall>e \<in> set (foldl (score_step self) acc performance_data). 0 < snd e"
  using assms
proof (induction performance_data arbitrary: acc)
  case Nil
  then show ?case by simp
next
  case (Cons item performance_data)
  obtain name perf where item: "item = (name, perf)" by (cases item)
  have "\<forall>e \<in> set (score_step self acc item). 0 < snd e"
    using Cons.prems set_update_subset [of name "performance_score perf" acc]
      performance_score_pos [of perf]
    by (auto simp add: score_step_def item)
  from Cons.IH [OF this] show ?case by simp
qed

lemma collect_scores_pos: "\<forall>e \<in> set (collect_scores self performance_data). 0 < snd e"
  unfolding collect_scores_def by (rule collect_scores_pos_aux) simp

lemma sum_list_pos_real:
  fixes xs :: "real list"
  assumes "xs \<noteq> []" "\<forall>x \<in> set xs. 0 < x"
  shows "0 < sum_list xs"
  using assms
proof (induction xs)
  case Nil
  then show ?case by simp
next
  case (Cons x xs)
  have "0 \<le> sum_list xs" using Cons.prems(2) by (intro sum_list_nonneg) (auto intro: less_imp_le)
  with Cons.prems(2) show ?case by simp
qed

lemma collect_scores_sum_pos:
  assumes "collect_scores self performance_data \<noteq> []"
  shows "0 < dict_values_sum (collect_scores self performance_data)"
  unfolding dict_values_sum_def
  using assms collect_scores_pos [of self performance_data]
  by (intro sum_list_pos_real) auto

lemma update_weights_eq:
  "update_weights self performance_data =
     (if collect_scores self performance_data = [] then self
      else self\<lparr>weights := map (\<lambda>(name, score).
                  (name, score / dict_values_sum (collect_scores self performance_data)))
                (collect_scores self performance_data)\<rparr>)"
  using collect_scores_sum_pos [of self performance_data]
  by (simp add: update_weights_def Let_def)

lemma update_weights_sum:
  "dict_values_sum (weights (update_weights self performance_data)) =
     (if collect_scores self performance_data = [] then dict_values_sum (weights self) else 1)"
proof (cases "collect_scores self performance_data = []")
  case True
  then show ?thesis by (simp add: update_weights_eq)
next
  case False
  from collect_scores_sum_pos [OF False] False show ?thesis
    by (simp add: update_weights_eq dict_values_sum_scaled)
qed

lemma update_weights_sum_preserved:
  assumes "dict_values_sum (weights self) = 1"
  shows "dict_values_sum (weights (foldl update_weights self perfs)) = 1"
  using assms
proof (induction perfs arbitrary: self)
  case Nil
  then show ?case by simp
next
  case (Cons p perfs)
  have "dict_values_sum (weights (update_weights self p)) = 1"
    using Cons.prems by (simp add: update_weights_sum)
  from Cons.IH [OF this] show ?case by simp
qed

lemmas weight_defs =
  StrategyEnsemble_init_def normalize_weights_def initial_weights_def dict_of_items_def
  update_weights_def collect_scores_def score_step_def performance_score_def
  dict_get_def dict_values_sum_def Let_def

text \<open>
  C2, as stated: for any weight map given at construction, and after every
  \<^verbatim>\<open>update_weights\<close> call, the weights sum to \<open>1\<close> within \<open>1e-9\<close>.
  \<^verbatim>\<open>_normalize_weights\<close> divides only when the total is positive: the map
  \<open>{a: 0.0}\<close> stays as it is, with sum \<open>0\<close>, and an update that scores no registered
  estimator leaves it so.
\<close>

theorem weights_sum_to_one_counterexample:
  "\<not> sums_to_one (weights (StrategyEnsemble_init [(''a'', True)] (Some [(''a'', 0)])))
   \<and> \<not> sums_to_one (weights (update_weights
            (StrategyEnsemble_init [(''a'', True)] (Some [(''a'', 0)])) []))"
  by (simp add: sums_to_one_def StrategyEnsemble_init_def normalize_weights_def initial_weights_def
        update_weights_def collect_scores_def dict_values_sum_def dict_of_items_def Let_def)

text \<open>
  C2, amended: when the weight map the constructor starts from (the one supplied, or the
  uniform one when none or an empty one is supplied) has a positive total, the weights sum
  to \<open>1\<close> after construction and after every sequence of \<^verbatim>\<open>update_weights\<close> calls; and
  whatever the weights were before, they sum to \<open>1\<close> after an \<^verbatim>\<open>update_weights\<close> call
  that scores at least one registered estimator. The sums are exact, hence within any
  tolerance.
\<close>

theorem weights_sum_to_one:
  "(0 < dict_values_sum (initial_weights strategy_list weights_arg) \<longrightarrow>
      dict_values_sum (weights (StrategyEnsemble_init strategy_list weights_arg)) = 1
    \<and> (\<forall>perfs. dict_values_sum
          (weights (foldl update_weights (StrategyEnsemble_init strategy_list weights_arg) perfs)) = 1))
   \<and> (collect_scores self performance_data \<noteq> [] \<longrightarrow>
        dict_values_sum (weights (update_weights self performance_data)) = 1)"
proof -
  have init: "dict_values_sum (weights (StrategyEnsemble_init strategy_list weights_arg)) = 1"
    if "0 < dict_values_sum (initial_weights strategy_list weights_arg)"
    using that by (simp add: StrategyEnsemble_init_def normalize_weights_sum)
  show ?thesis
    using init update_weights_sum_preserved [OF init] by (simp add: update_weights_sum)
qed

theorem weights_sum_to_one_witness:
  "dict_values_sum (weights (StrategyEnsemble_init
       [(''Momentum Trader'', True), (''Contrarian'', True)]
       (Some [(''Momentum Trader'', 3), (''Contrarian'', 2)]))) = 1
   \<and> dict_values_sum (weights (foldl update_weights
       (StrategyEnsemble_init
          [(''Momentum Trader'', True), (''Contrarian'', True)]
          (Some [(''Momentum Trader'', 3), (''Contrarian'', 2)]))
       [[(''Contrarian'', [(''win_rate'', 0.5), (''total_return'', 2), (''total_trades'', 4)])], []])) = 1
   \<and> dict_values_sum (weights (update_weights
       \<lparr>strategies = [(''Momentum Trader'', True), (''Contrarian'', True)],
        weights = [(''Momentum Trader'', 0), (''Contrarian'', 0)]\<rparr>
       [(''Contrarian'', [(''win_rate'', 0.5), (''total_return'', 2), (''total_trades'', 4)])])) = 1"
proof -
  have h1: "0 < dict_values_sum (initial_weights
       [(''Momentum Trader'', True), (''Contrarian'', True)]
       (Some [(''Momentum Trader'', 3), (''Contrarian'', 2)]))"
    by (simp add: initial_weights_def dict_values_sum_def)
  have h2: "collect_scores
       \<lparr>strategies = [(''Momentum Trader'', True), (''Contrarian'', True)],
        weights = [(''Momentum Trader'', 0), (''Contrarian'', 0)]\<rparr>
       [(''Contrarian'', [(''win_rate'', 0.5), (''total_return'', 2), (''total_trades'', 4)])] \<noteq> []"
    by (simp add: collect_scores_def score_step_def)
  from weights_sum_to_one
    [of "[(''Momentum Trader'', True), (''Contrarian'', True)]"
        "Some [(''Momentum Trader'', 3), (''Contrarian'', 2)]"
        "\<lparr>strategies = [(''Momentum Trader'', True), (''Contrarian'', True)],
          weights = [(''Momentum Trader'', 0), (''Contrarian'', 0)]\<rparr>"
        "[(''Contrarian'', [(''win_rate'', 0.5), (''total_return'', 2), (''total_trades'', 4)])]"]
    h1 h2
  show ?thesis by blast
qed

subsection \<open>Scores and the update of the weights\<close>

text \<open>A performance mapping is a dict: its keys are distinct, and every insertion into
  \<^verbatim>\<open>scores\<close> is of a new key.\<close>

lemma update_fresh: "k \<notin> fst ` set al \<Longrightarrow> AList.update k v al = al @ [(k, v)]"
  by (induction al) auto

lemma score_step_distinct:
  assumes "distinct (map fst performance_data)"
    and "fst ` set acc \<inter> fst ` set performance_data = {}"
  shows "foldl (score_step self) acc performance_data =
     acc @ map (\<lambda>(n, p). (n, performance_score p))
             (filter (\<lambda>(n, p). n \<in> set (map fst (strategies self))) performance_data)"
  using assms
proof (induction performance_data arbitrary: acc)
  case Nil
  show ?case by simp
next
  case (Cons item performance_data)
  obtain name perf where item: "item = (name, perf)" by (cases item)
  have fresh: "name \<notin> fst ` set acc" using Cons.prems(2) by (auto simp add: item)
  have d: "distinct (map fst performance_data)" using Cons.prems(1) by simp
  have nin: "name \<notin> fst ` set performance_data" using Cons.prems(1) by (simp add: item)
  have disj: "fst ` set (score_step self acc item) \<inter> fst ` set performance_data = {}"
    using Cons.prems(2) nin by (auto simp add: score_step_def item update_fresh [OF fresh])
  show ?case
    unfolding foldl_Cons Cons.IH [OF d disj]
    by (simp add: score_step_def item update_fresh [OF fresh])
qed

lemma collect_scores_distinct:
  assumes "distinct (map fst performance_data)"
  shows "collect_scores self performance_data =
     map (\<lambda>(n, p). (n, performance_score p))
       (filter (\<lambda>(n, p). n \<in> set (map fst (strategies self))) performance_data)"
  unfolding collect_scores_def using score_step_distinct [OF assms, of "[]" self] by simp

lemma map_of_scaled:
  "map_of (map (\<lambda>(k, v). (k, f v)) xs) k = map_option f (map_of xs k)"
  by (induction xs) auto

lemma map_of_filter_key:
  "map_of (filter (\<lambda>(k, v). P k) xs) k = (if P k then map_of xs k else None)"
  by (induction xs) auto

lemma update_weights_strategies [simp]:
  "strategies (update_weights self performance_data) = strategies self"
  by (simp add: update_weights_eq)

text \<open>
  C6, as stated: no registered estimator is ever removed from the weight map by
  \<^verbatim>\<open>update_weights\<close>. The new map has the scored names only: with \<open>a\<close> and \<open>b\<close>
  registered at weight \<open>1/2\<close> each, an update whose performance mapping has an entry for
  \<open>a\<close> alone leaves \<open>b\<close> without a weight.
\<close>

theorem update_weights_scores_counterexample:
  "''b'' \<in> set (map fst (strategies (StrategyEnsemble_init [(''a'', True), (''b'', True)] None)))
   \<and> map_of (weights (StrategyEnsemble_init [(''a'', True), (''b'', True)] None)) ''b'' = Some (1 / 2)
   \<and> map_of (weights (update_weights (StrategyEnsemble_init [(''a'', True), (''b'', True)] None)
         [(''a'', [(''win_rate'', 0.75), (''total_return'', 4), (''total_trades'', 4)])])) ''b'' = None"
  by (simp add: weight_defs)

text \<open>
  C6, amended: for every performance mapping, each registered estimator that has an entry
  in it is scored \<open>0.6 * win_rate + 0.4 * (total_return / total_trades)\<close> floored at \<open>0.1\<close>
  when \<open>total_trades > 0\<close> and \<open>0.5\<close> otherwise; the scores of the registered entries are
  divided by their sum, and that estimator's new weight is its score over the sum, which
  is positive. When at least one registered estimator has an entry, the new weights sum
  to \<open>1\<close> and the new weight map holds exactly the registered names that have an entry;
  when none has, the ensemble is left as it was. The registered strategies themselves are
  never changed.
\<close>

theorem update_weights_scores:
  assumes "distinct (map fst performance_data)"
  shows "(name \<in> set (map fst (strategies self)) \<and> map_of performance_data name = Some perf \<longrightarrow>
            map_of (weights (update_weights self performance_data)) name
              = Some (performance_score perf / dict_values_sum (collect_scores self performance_data))
          \<and> 0 < performance_score perf / dict_values_sum (collect_scores self performance_data))
       \<and> performance_score perf =
           (if dict_get perf ''total_trades'' 0 > 0
            then max 0.1 (0.6 * dict_get perf ''win_rate'' 0
                    + 0.4 * (dict_get perf ''total_return'' 0 / dict_get perf ''total_trades'' 0))
            else 0.5)
       \<and> collect_scores self performance_data =
           map (\<lambda>(n, p). (n, performance_score p))
             (filter (\<lambda>(n, p). n \<in> set (map fst (strategies self))) performance_data)
       \<and> ((\<exists>n \<in> set (map fst performance_data). n \<in> set (map fst (strategies self))) \<longrightarrow>
            dict_values_sum (weights (update_weights self performance_data)) = 1
          \<and> set (map fst (weights (update_weights self performance_data)))
              = {n \<in> set (map fst performance_data). n \<in> set (map fst (strategies self))})
       \<and> ((\<forall>n \<in> set (map fst performance_data). n \<notin> set (map fst (strategies self))) \<longrightarrow>
            update_weights self performance_data = self)
       \<and> strategies (update_weights self performance_data) = strategies self"
proof -
  let ?reg = "\<lambda>n. n \<in> set (map fst (strategies self))"
  let ?scores = "collect_scores self performance_data"
  have cs: "?scores = map (\<lambda>(n, p). (n, performance_score p))
                        (filter (\<lambda>(n, p). ?reg n) performance_data)"
    by (rule collect_scores_distinct [OF assms])
  have w: "weights (update_weights self performance_data)
             = map (\<lambda>(name, score). (name, score / dict_values_sum ?scores)) ?scores"
    if "?scores \<noteq> []"
    using that by (simp add: update_weights_eq)
  have entry: "map_of (weights (update_weights self performance_data)) name
                 = Some (performance_score perf / dict_values_sum ?scores)
             \<and> 0 < performance_score perf / dict_values_sum ?scores"
    if "?reg name" "map_of performance_data name = Some perf"
  proof -
    have look: "map_of ?scores name = Some (performance_score perf)"
      unfolding cs using that by (simp add: map_of_scaled map_of_filter_key)
    then have ne: "?scores \<noteq> []" by auto
    have tpos: "0 < dict_values_sum ?scores" by (rule collect_scores_sum_pos [OF ne])
    have "map_of (weights (update_weights self performance_data)) name
           = Some (performance_score perf / dict_values_sum ?scores)"
      unfolding w [OF ne] by (simp add: map_of_scaled look)
    moreover have "0 < performance_score perf / dict_values_sum ?scores"
      using performance_score_pos [of perf] tpos by simp
    ultimately show ?thesis by simp
  qed
  have formula: "performance_score perf =
           (if dict_get perf ''total_trades'' 0 > 0
            then max 0.1 (0.6 * dict_get perf ''win_rate'' 0
                    + 0.4 * (dict_get perf ''total_return'' 0 / dict_get perf ''total_trades'' 0))
            else 0.5)"
    by (simp add: performance_score_def Let_def mult.commute)
  have some: "dict_values_sum (weights (update_weights self performance_data)) = 1
          \<and> set (map fst (weights (update_weights self performance_data)))
              = {n \<in> set (map fst performance_data). ?reg n}"
    if "\<exists>n \<in> set (map fst performance_data). ?reg n"
  proof -
    from that obtain n where n: "n \<in> set (map fst performance_data)" and reg: "?reg n"
      by blast
    from n obtain p where "(n, p) \<in> set performance_data" by auto
    with reg have "(n, p) \<in> set performance_data" "?reg n" by simp_all
    then have "(n, performance_score p) \<in> set ?scores" unfolding cs by force
    then have ne: "?scores \<noteq> []" by auto
    have s: "dict_values_sum (weights (update_weights self performance_data)) = 1"
      using ne by (simp add: update_weights_sum)
    have "map fst (weights (update_weights self performance_data)) = map fst ?scores"
      unfolding w [OF ne] by (induction ?scores) auto
    then have "set (map fst (weights (update_weights self performance_data)))
           = {n \<in> set (map fst performance_data). ?reg n}"
      unfolding cs by force
    with s show ?thesis by simp
  qed
  have none: "update_weights self performance_data = self"
    if "\<forall>n \<in> set (map fst performance_data). \<not> ?reg n"
  proof -
    have "filter (\<lambda>(n, p). ?reg n) performance_data = []"
      unfolding filter_empty_conv using that by force
    then have "?scores = []" unfolding cs by simp
    then show ?thesis by (simp add: update_weights_eq)
  qed
  show ?thesis using entry formula cs some none by simp
qed

theorem update_weights_scores_witness:
  "map_of (weights (update_weights
       \<lparr>strategies = [(''a'', True), (''b'', True)], weights = [(''a'', 1 / 2), (''b'', 1 / 2)]\<rparr>
       [(''a'', [(''win_rate'', 0.75), (''total_return'', 4), (''total_trades'', 4)]),
        (''b'', []),
        (''c'', [(''win_rate'', 1), (''total_return'', 9), (''total_trades'', 3)])])) ''a''
     = Some (17 / 27)
   \<and> performance_score [(''win_rate'', 0.75), (''total_return'', 4), (''total_trades'', 4)] = 17 / 20
   \<and> dict_values_sum (weights (update_weights
       \<lparr>strategies = [(''a'', True), (''b'', True)], weights = [(''a'', 1 / 2), (''b'', 1 / 2)]\<rparr>
       [(''a'', [(''win_rate'', 0.75), (''total_return'', 4), (''total_trades'', 4)]),
        (''b'', []),
        (''c'', [(''win_rate'', 1), (''total_return'', 9), (''total_trades'', 3)])])) = 1
   \<and> set (map fst (weights (update_weights
       \<lparr>strategies = [(''a'', True), (''b'', True)], weights = [(''a'', 1 / 2), (''b'', 1 / 2)]\<rparr>
       [(''a'', [(''win_rate'', 0.75), (''total_return'', 4), (''total_trades'', 4)]),
        (''b'', []),
        (''c'', [(''win_rate'', 1), (''total_return'', 9), (''total_trades'', 3)])]))) = {''a'', ''b''}
   \<and> update_weights
       \<lparr>strategies = [(''a'', True), (''b'', True)], weights = [(''a'', 1 / 2), (''b'', 1 / 2)]\<rparr>
       [(''c'', [(''win_rate'', 1), (''total_return'', 9), (''total_trades'', 3)])]
     = \<lparr>strategies = [(''a'', True), (''b'', True)], weights = [(''a'', 1 / 2), (''b'', 1 / 2)]\<rparr>"
proof -
  let ?e = "\<lparr>strategies = [(''a'', True), (''b'', True)], weights = [(''a'', 1 / 2), (''b'', 1 / 2)]\<rparr>"
  let ?pa = "[(''win_rate'', 0.75), (''total_return'', 4), (''total_trades'', 4 :: real)]"
  let ?pd = "[(''a'', ?pa), (''b'', []),
              (''c'', [(''win_rate'', 1), (''total_return'', 9), (''total_trades'', 3)])]"
  let ?pc = "[(''c'', [(''win_rate'', 1), (''total_return'', 9), (''total_trades'', 3 :: real)])]"
  have d: "distinct (map fst ?pd)" by simp
  have dc: "distinct (map fst ?pc)" by simp
  have r: "''a'' \<in> set (map fst (strategies ?e))" by simp
  have l: "map_of ?pd ''a'' = Some ?pa" by simp
  have ex: "\<exists>n \<in> set (map fst ?pd). n \<in> set (map fst (strategies ?e))" by simp
  have keys: "{n \<in> set (map fst ?pd). n \<in> set (map fst (strategies ?e))} = {''a'', ''b''}"
    by auto
  have no: "\<forall>n \<in> set (map fst ?pc). n \<notin> set (map fst (strategies ?e))" by simp
  have t: "dict_values_sum (collect_scores ?e ?pd) = 27 / 20"
    by (simp add: weight_defs)
  have p: "performance_score ?pa = 17 / 20"
    by (simp add: weight_defs)
  from update_weights_scores [OF d, of "''a''" ?e ?pa] r l ex
  have "map_of (weights (update_weights ?e ?pd)) ''a''
          = Some (performance_score ?pa / dict_values_sum (collect_scores ?e ?pd))"
    and "dict_values_sum (weights (update_weights ?e ?pd)) = 1"
    and "set (map fst (weights (update_weights ?e ?pd)))
          = {n \<in> set (map fst ?pd). n \<in> set (map fst (strategies ?e))}"
    by blast+
  moreover from update_weights_scores [OF dc, of "''a''" ?e ?pa] no
  have "update_weights ?e ?pc = ?e" by blast
  ultimately show ?thesis unfolding t p keys using p by simp
qed

end
